theory Spec2Isabelle
  imports Main "HOL-Library.Word"
begin

unbundle bit_operations_syntax

section \<open>Bytes, hashes and big integers\<close>

type_synonym byte = "8 word"
type_synonym lane = "64 word"

text \<open>\<open>new(big.Int).SetBytes(b)\<close>: the bytes read as one big-endian unsigned integer.\<close>

definition SetBytes :: "byte list \<Rightarrow> nat" where
  "SetBytes bs = foldl (\<lambda>acc b. acc * 256 + unat b) 0 bs"

text \<open>\<open>big.Int.Uint64()\<close>: the low 64 bits of the magnitude.\<close>

definition Uint64 :: "nat \<Rightarrow> 64 word" where
  "Uint64 n = of_nat n"

text \<open>\<open>big.Int.Int64()\<close> followed by the conversion to Go's \<open>int\<close>: the low 64 bits, signed.\<close>

definition Int64 :: "nat \<Rightarrow> int" where
  "Int64 n = sint (of_nat n :: 64 word)"

definition hexdigit :: "nat \<Rightarrow> char" where
  "hexdigit n = ''0123456789abcdef'' ! (n mod 16)"

definition hex_of_bytes :: "byte list \<Rightarrow> string" where
  "hex_of_bytes bs = concat (map (\<lambda>b. [hexdigit (unat b div 16), hexdigit (unat b mod 16)]) bs)"

text \<open>\<open>common.Hash.Hex()\<close>: \<open>0x\<close> and the lower-case hexadecimal digits.\<close>

definition HashHex :: "byte list \<Rightarrow> string" where
  "HashHex h = ''0x'' @ hex_of_bytes h"

text \<open>\<open>common.BytesToAddress\<close>: the last 20 bytes, left-padded with zeros when shorter.\<close>

definition BytesToAddress :: "byte list \<Rightarrow> byte list" where
  "BytesToAddress b =
     (let b' = (if length b > 20 then drop (length b - 20) b else b)
      in replicate (20 - length b') 0 @ b')"

text \<open>The decimal text that \<open>%d\<close> prints for an unsigned integer.\<close>

function decimal :: "nat \<Rightarrow> string" where
  "decimal n = (if n < 10 then [hexdigit n] else decimal (n div 10) @ [hexdigit (n mod 10)])"
  by pat_completeness auto
termination
  by (relation "measure id") auto

declare decimal.simps [simp del]

section \<open>Keccak-256\<close>

text \<open>
  The legacy Keccak-256 of \<open>crypto.Keccak256Hash\<close>: rate 136 bytes, padding byte \<open>0x01\<close>,
  24 rounds of Keccak-f[1600] on 25 lanes of 64 bits, lane \<open>(x, y)\<close> at index \<open>x + 5 * y\<close>.
\<close>

definition rotl :: "lane \<Rightarrow> nat \<Rightarrow> lane" where
  "rotl w n = (push_bit n w) OR (drop_bit (64 - n) w)"

definition theta_c :: "lane list \<Rightarrow> lane list" where
  "theta_c A =
     [A ! 0 XOR A ! 5 XOR A ! 10 XOR A ! 15 XOR A ! 20,
      A ! 1 XOR A ! 6 XOR A ! 11 XOR A ! 16 XOR A ! 21,
      A ! 2 XOR A ! 7 XOR A ! 12 XOR A ! 17 XOR A ! 22,
      A ! 3 XOR A ! 8 XOR A ! 13 XOR A ! 18 XOR A ! 23,
      A ! 4 XOR A ! 9 XOR A ! 14 XOR A ! 19 XOR A ! 24]"

definition theta_d :: "lane list \<Rightarrow> lane list" where
  "theta_d C =
     [C ! 4 XOR rotl (C ! 1) 1, C ! 0 XOR rotl (C ! 2) 1, C ! 1 XOR rotl (C ! 3) 1,
      C ! 2 XOR rotl (C ! 4) 1, C ! 3 XOR rotl (C ! 0) 1]"

definition theta_x :: "lane list \<Rightarrow> lane list \<Rightarrow> lane list" where
  "theta_x D A =
     [A ! 0 XOR D ! 0, A ! 1 XOR D ! 1, A ! 2 XOR D ! 2, A ! 3 XOR D ! 3, A ! 4 XOR D ! 4,
      A ! 5 XOR D ! 0, A ! 6 XOR D ! 1, A ! 7 XOR D ! 2, A ! 8 XOR D ! 3, A ! 9 XOR D ! 4,
      A ! 10 XOR D ! 0, A ! 11 XOR D ! 1, A ! 12 XOR D ! 2, A ! 13 XOR D ! 3, A ! 14 XOR D ! 4,
      A ! 15 XOR D ! 0, A ! 16 XOR D ! 1, A ! 17 XOR D ! 2, A ! 18 XOR D ! 3, A ! 19 XOR D ! 4,
      A ! 20 XOR D ! 0, A ! 21 XOR D ! 1, A ! 22 XOR D ! 2, A ! 23 XOR D ! 3, A ! 24 XOR D ! 4]"

definition rho_pi :: "lane list \<Rightarrow> lane list" where
  "rho_pi A =
     [rotl (A ! 0) 0, rotl (A ! 6) 44, rotl (A ! 12) 43, rotl (A ! 18) 21, rotl (A ! 24) 14,
      rotl (A ! 3) 28, rotl (A ! 9) 20, rotl (A ! 10) 3, rotl (A ! 16) 45, rotl (A ! 22) 61,
      rotl (A ! 1) 1, rotl (A ! 7) 6, rotl (A ! 13) 25, rotl (A ! 19) 8, rotl (A ! 20) 18,
      rotl (A ! 4) 27, rotl (A ! 5) 36, rotl (A ! 11) 10, rotl (A ! 17) 15, rotl (A ! 23) 56,
      rotl (A ! 2) 62, rotl (A ! 8) 55, rotl (A ! 14) 39, rotl (A ! 15) 41, rotl (A ! 21) 2]"

definition chi :: "lane list \<Rightarrow> lane list" where
  "chi B =
     [B ! 0 XOR (NOT (B ! 1) AND B ! 2), B ! 1 XOR (NOT (B ! 2) AND B ! 3), B ! 2 XOR (NOT (B ! 3) AND B ! 4),
      B ! 3 XOR (NOT (B ! 4) AND B ! 0), B ! 4 XOR (NOT (B ! 0) AND B ! 1), B ! 5 XOR (NOT (B ! 6) AND B ! 7),
      B ! 6 XOR (NOT (B ! 7) AND B ! 8), B ! 7 XOR (NOT (B ! 8) AND B ! 9), B ! 8 XOR (NOT (B ! 9) AND B ! 5),
      B ! 9 XOR (NOT (B ! 5) AND B ! 6), B ! 10 XOR (NOT (B ! 11) AND B ! 12), B ! 11 XOR (NOT (B ! 12) AND B ! 13),
      B ! 12 XOR (NOT (B ! 13) AND B ! 14), B ! 13 XOR (NOT (B ! 14) AND B ! 10), B ! 14 XOR (NOT (B ! 10) AND B ! 11),
      B ! 15 XOR (NOT (B ! 16) AND B ! 17), B ! 16 XOR (NOT (B ! 17) AND B ! 18), B ! 17 XOR (NOT (B ! 18) AND B ! 19),
      B ! 18 XOR (NOT (B ! 19) AND B ! 15), B ! 19 XOR (NOT (B ! 15) AND B ! 16), B ! 20 XOR (NOT (B ! 21) AND B ! 22),
      B ! 21 XOR (NOT (B ! 22) AND B ! 23), B ! 22 XOR (NOT (B ! 23) AND B ! 24), B ! 23 XOR (NOT (B ! 24) AND B ! 20),
      B ! 24 XOR (NOT (B ! 20) AND B ! 21)]"

definition iota :: "lane \<Rightarrow> lane list \<Rightarrow> lane list" where
  "iota rc A = (A ! 0 XOR rc) # tl A"

definition round :: "lane list \<Rightarrow> lane \<Rightarrow> lane list" where
  "round A rc = iota rc (chi (rho_pi (theta_x (theta_d (theta_c A)) A)))"

definition RC :: "lane list" where
  "RC = [0x0000000000000001, 0x0000000000008082, 0x800000000000808A, 0x8000000080008000,
         0x000000000000808B, 0x0000000080000001, 0x8000000080008081, 0x8000000000008009,
         0x000000000000008A, 0x0000000000000088, 0x0000000080008009, 0x000000008000000A,
         0x000000008000808B, 0x800000000000008B, 0x8000000000008089, 0x8000000000008003,
         0x8000000000008002, 0x8000000000000080, 0x000000000000800A, 0x800000008000000A,
         0x8000000080008081, 0x8000000000008080, 0x0000000080000001, 0x8000000080008008]"

definition keccak_f :: "lane list \<Rightarrow> lane list" where
  "keccak_f A = foldl round A RC"

fun le_lane :: "byte list \<Rightarrow> lane" where
  "le_lane [] = 0"
| "le_lane (b # bs) = ucast b OR push_bit 8 (le_lane bs)"

fun block_lanes :: "nat \<Rightarrow> byte list \<Rightarrow> lane list" where
  "block_lanes 0 bs = []"
| "block_lanes (Suc n) bs = le_lane (take 8 bs) # block_lanes n (drop 8 bs)"

definition pad :: "byte list \<Rightarrow> byte list" where
  "pad m = (let q = 136 - length m mod 136 in
            if q = 1 then m @ [0x81] else m @ [0x01] @ replicate (q - 2) 0 @ [0x80])"

fun absorb :: "nat \<Rightarrow> lane list \<Rightarrow> byte list \<Rightarrow> lane list" where
  "absorb 0 A bs = A"
| "absorb (Suc n) A bs =
     absorb n (keccak_f (map2 (XOR) A (block_lanes 17 (take 136 bs) @ replicate 8 0))) (drop 136 bs)"

definition lane_bytes :: "lane \<Rightarrow> byte list" where
  "lane_bytes w = map (\<lambda>i. ucast (drop_bit (8 * i) w)) [0..<8]"

definition keccak256 :: "byte list \<Rightarrow> byte list" where
  "keccak256 m = (let p = pad m in
     concat (map lane_bytes (take 4 (absorb (length p div 136) (replicate 25 0) p))))"

definition bytes_of :: "string \<Rightarrow> byte list" where
  "bytes_of s = map (\<lambda>c. of_nat (of_char c)) s"

text \<open>
  \<open>common.Address.Hex()\<close>: the EIP-55 form. A letter digit is upper-cased when the
  matching nibble of the Keccak-256 of the lower-case digits is above 7.
\<close>

definition nibbles :: "byte list \<Rightarrow> nat list" where
  "nibbles bs = concat (map (\<lambda>b. [unat b div 16, unat b mod 16]) bs)"

definition checksum_char :: "char \<Rightarrow> nat \<Rightarrow> char" where
  "checksum_char c h =
     (if of_char c > (of_char CHR ''9'' :: nat) \<and> h > 7 then char_of (of_char c - (32::nat)) else c)"

definition AddressHex :: "byte list \<Rightarrow> string" where
  "AddressHex a =
     (let buf = hex_of_bytes a; hash = keccak256 (bytes_of buf)
      in ''0x'' @ map2 checksum_char buf (nibbles hash))"


section \<open>Raw logs, decoded entities and errors\<close>

text \<open>
  \<open>types.Log\<close>: the topics (each a 32-byte hash), the data bytes, the block number, the
  transaction hash and the index of the log in its block. The block number field is
  called \<open>LogBlockNumber\<close> here, since the entities have a \<open>BlockNumber\<close> of their own.
\<close>

record log =
  Topics :: "byte list list"
  Data :: "byte list"
  LogBlockNumber :: "64 word"
  TxHash :: "byte list"
  Index :: nat

text \<open>\<open>config.BigInt\<close> wraps a pointer to a big integer; \<open>None\<close> is the nil pointer.\<close>

type_synonym BigInt = "nat option"

text \<open>The eleven entity structs of \<open>config/db.go\<close> that the decoders fill, one constructor each.\<close>

datatype entity =
    BetPlaced (ID: string) (MarketID: BigInt) (User: string) (Position: bool)
      (Amount: BigInt) (Shares: BigInt)
      (BlockNumber: BigInt) (BlockTimestamp: BigInt) (TransactionHash: string)
  | MarketCreated (ID: string) (MarketID: BigInt) (Question: string) (EndTime: BigInt)
      (TokenAddress: string) (VaultAddress: string)
      (BlockNumber: BigInt) (BlockTimestamp: BigInt) (TransactionHash: string)
  | MarketResolved (ID: string) (MarketID: BigInt) (Outcome: bool)
      (BlockNumber: BigInt) (BlockTimestamp: BigInt) (TransactionHash: string)
  | WinningsClaimed (ID: string) (MarketID: BigInt) (User: string) (WinningAmount: BigInt)
      (BlockNumber: BigInt) (BlockTimestamp: BigInt) (TransactionHash: string)
  | AutoDepositExecuted (ID: string) (User: string) (Protocol: string) (Amount: BigInt)
      (Success: bool)
      (BlockNumber: BigInt) (BlockTimestamp: BigInt) (TransactionHash: string)
  | AutoWithdrawExecuted (ID: string) (User: string) (Protocol: string) (Amount: BigInt)
      (Success: bool)
      (BlockNumber: BigInt) (BlockTimestamp: BigInt) (TransactionHash: string)
  | OwnershipTransferred (ID: string) (PreviousOwner: string) (NewOwner: string)
      (BlockNumber: BigInt) (BlockTimestamp: BigInt) (TransactionHash: string)
  | Paused (ID: string) (Account: string)
      (BlockNumber: BigInt) (BlockTimestamp: BigInt) (TransactionHash: string)
  | ProtocolRegistered (ID: string) (ProtocolType: int) (ProtocolAddress: string)
      (Name: string) (RiskLevel: int)
      (BlockNumber: BigInt) (BlockTimestamp: BigInt) (TransactionHash: string)
  | ProtocolUpdated (ID: string) (ProtocolAddress: string) (NewApy: BigInt) (NewTvl: BigInt)
      (BlockNumber: BigInt) (BlockTimestamp: BigInt) (TransactionHash: string)
  | Unpaused (ID: string) (Account: string)
      (BlockNumber: BigInt) (BlockTimestamp: BigInt) (TransactionHash: string)

text \<open>
  A decoder either returns an error value (\<open>Errorf\<close> with its message) or stops the
  process with a run-time panic when a slice expression is out of range.
\<close>

datatype error = Errorf string | SlicePanic

text \<open>
  The slice expression \<open>d[lo:hi]\<close> with \<open>uint64\<close> bounds: Go panics unless
  \<open>lo \<le> hi \<le> cap(d)\<close>; the capacity is taken to be the length.
\<close>

definition slice :: "byte list \<Rightarrow> 64 word \<Rightarrow> 64 word \<Rightarrow> error + byte list" where
  "slice d lo hi =
     (if lo \<le> hi \<and> unat hi \<le> length d then Inr (take (unat hi - unat lo) (drop (unat lo) d))
      else Inl SlicePanic)"

text \<open>Slices with constant bounds, used only under a length check.\<close>

definition word_at :: "byte list \<Rightarrow> nat \<Rightarrow> byte list" where
  "word_at d i = take 32 (drop i d)"

definition string_of_bytes :: "byte list \<Rightarrow> string" where
  "string_of_bytes bs = map (\<lambda>b. char_of (unat b)) bs"

definition len64 :: "byte list \<Rightarrow> 64 word" where
  "len64 d = of_nat (length d)"

text \<open>
  The dynamic string read shared by \<open>parseMarketCreated\<close> and \<open>parseProtocolRegistered\<close>:
  the two guards and the two slice expressions, all in \<open>uint64\<close> arithmetic. The result
  is \<open>None\<close> when a guard fails and the field keeps its zero value.
\<close>

definition read_string :: "byte list \<Rightarrow> 64 word \<Rightarrow> error + string option" where
  "read_string d offset =
     (if len64 d > offset + 32 then
        (case slice d offset (offset + 32) of
           Inl e \<Rightarrow> Inl e
         | Inr w \<Rightarrow>
             (let strLen = Uint64 (SetBytes w) in
              if len64 d \<ge> offset + 32 + strLen then
                (case slice d (offset + 32) (offset + 32 + strLen) of
                   Inl e \<Rightarrow> Inl e
                 | Inr s \<Rightarrow> Inr (Some (string_of_bytes s)))
              else Inr None))
      else Inr None)"

definition is_true :: "byte list \<Rightarrow> bool" where
  "is_true w = (SetBytes w \<noteq> 0)"

section \<open>The decoders of \<open>indexer/parser.go\<close>\<close>

definition parseBetPlaced :: "log \<Rightarrow> string \<Rightarrow> BigInt \<Rightarrow> BigInt \<Rightarrow> string \<Rightarrow> error + entity" where
  "parseBetPlaced l id' blockNumber blockTimestamp txHash =
     (if length (Topics l) < 3 then Inl (Errorf ''insufficient topics for BetPlaced'')
      else
        (let marketID = Some (SetBytes (Topics l ! 1));
             user = AddressHex (BytesToAddress (Topics l ! 2))
         in if length (Data l) \<ge> 96 then
              Inr (BetPlaced id' marketID user (is_true (word_at (Data l) 0))
                     (Some (SetBytes (word_at (Data l) 32))) (Some (SetBytes (word_at (Data l) 64)))
                     blockNumber blockTimestamp txHash)
            else Inr (BetPlaced id' marketID user False None None blockNumber blockTimestamp txHash)))"

definition parseMarketCreated :: "log \<Rightarrow> string \<Rightarrow> BigInt \<Rightarrow> BigInt \<Rightarrow> string \<Rightarrow> error + entity" where
  "parseMarketCreated l id' blockNumber blockTimestamp txHash =
     (if length (Topics l) < 2 then Inl (Errorf ''insufficient topics for MarketCreated'')
      else
        (let marketID = Some (SetBytes (Topics l ! 1))
         in if length (Data l) \<ge> 128 then
              (let offset = Uint64 (SetBytes (word_at (Data l) 0));
                   endTime = Some (SetBytes (word_at (Data l) 32));
                   tokenAddress = AddressHex (BytesToAddress (word_at (Data l) 64));
                   vaultAddress = AddressHex (BytesToAddress (word_at (Data l) 96))
               in case read_string (Data l) offset of
                    Inl e \<Rightarrow> Inl e
                  | Inr q \<Rightarrow>
                      Inr (MarketCreated id' marketID (case q of None \<Rightarrow> [] | Some s \<Rightarrow> s) endTime
                             tokenAddress vaultAddress blockNumber blockTimestamp txHash))
            else Inr (MarketCreated id' marketID [] None [] [] blockNumber blockTimestamp txHash)))"

definition parseMarketResolved :: "log \<Rightarrow> string \<Rightarrow> BigInt \<Rightarrow> BigInt \<Rightarrow> string \<Rightarrow> error + entity" where
  "parseMarketResolved l id' blockNumber blockTimestamp txHash =
     (if length (Topics l) < 2 then Inl (Errorf ''insufficient topics for MarketResolved'')
      else Inr (MarketResolved id' (Some (SetBytes (Topics l ! 1)))
                  (if length (Data l) \<ge> 32 then is_true (word_at (Data l) 0) else False)
                  blockNumber blockTimestamp txHash))"

definition parseWinningsClaimed :: "log \<Rightarrow> string \<Rightarrow> BigInt \<Rightarrow> BigInt \<Rightarrow> string \<Rightarrow> error + entity" where
  "parseWinningsClaimed l id' blockNumber blockTimestamp txHash =
     (if length (Topics l) < 3 then Inl (Errorf ''insufficient topics for WinningsClaimed'')
      else Inr (WinningsClaimed id' (Some (SetBytes (Topics l ! 1)))
                  (AddressHex (BytesToAddress (Topics l ! 2)))
                  (if length (Data l) \<ge> 32 then Some (SetBytes (word_at (Data l) 0)) else None)
                  blockNumber blockTimestamp txHash))"

definition parseAutoDepositExecuted :: "log \<Rightarrow> string \<Rightarrow> BigInt \<Rightarrow> BigInt \<Rightarrow> string \<Rightarrow> error + entity" where
  "parseAutoDepositExecuted l id' blockNumber blockTimestamp txHash =
     (if length (Topics l) < 3 then Inl (Errorf ''insufficient topics for AutoDepositExecuted'')
      else
        (let user = AddressHex (BytesToAddress (Topics l ! 1));
             protocol = AddressHex (BytesToAddress (Topics l ! 2))
         in if length (Data l) \<ge> 64 then
              Inr (AutoDepositExecuted id' user protocol (Some (SetBytes (word_at (Data l) 0)))
                     (is_true (word_at (Data l) 32)) blockNumber blockTimestamp txHash)
            else Inr (AutoDepositExecuted id' user protocol None False blockNumber blockTimestamp txHash)))"

definition parseAutoWithdrawExecuted :: "log \<Rightarrow> string \<Rightarrow> BigInt \<Rightarrow> BigInt \<Rightarrow> string \<Rightarrow> error + entity" where
  "parseAutoWithdrawExecuted l id' blockNumber blockTimestamp txHash =
     (if length (Topics l) < 3 then Inl (Errorf ''insufficient topics for AutoWithdrawExecuted'')
      else
        (let user = AddressHex (BytesToAddress (Topics l ! 1));
             protocol = AddressHex (BytesToAddress (Topics l ! 2))
         in if length (Data l) \<ge> 64 then
              Inr (AutoWithdrawExecuted id' user protocol (Some (SetBytes (word_at (Data l) 0)))
                     (is_true (word_at (Data l) 32)) blockNumber blockTimestamp txHash)
            else Inr (AutoWithdrawExecuted id' user protocol None False blockNumber blockTimestamp txHash)))"

definition parseOwnershipTransferred :: "log \<Rightarrow> string \<Rightarrow> BigInt \<Rightarrow> BigInt \<Rightarrow> string \<Rightarrow> error + entity" where
  "parseOwnershipTransferred l id' blockNumber blockTimestamp txHash =
     (if length (Topics l) < 3 then Inl (Errorf ''insufficient topics for OwnershipTransferred'')
      else Inr (OwnershipTransferred id' (AddressHex (BytesToAddress (Topics l ! 1)))
                  (AddressHex (BytesToAddress (Topics l ! 2))) blockNumber blockTimestamp txHash))"

definition parsePaused :: "log \<Rightarrow> string \<Rightarrow> BigInt \<Rightarrow> BigInt \<Rightarrow> string \<Rightarrow> error + entity" where
  "parsePaused l id' blockNumber blockTimestamp txHash =
     Inr (Paused id'
            (if length (Data l) \<ge> 32 then AddressHex (BytesToAddress (word_at (Data l) 0)) else [])
            blockNumber blockTimestamp txHash)"

definition parseProtocolRegistered :: "log \<Rightarrow> string \<Rightarrow> BigInt \<Rightarrow> BigInt \<Rightarrow> string \<Rightarrow> error + entity" where
  "parseProtocolRegistered l id' blockNumber blockTimestamp txHash =
     (if length (Topics l) < 3 then Inl (Errorf ''insufficient topics for ProtocolRegistered'')
      else
        (let protocolType = Int64 (SetBytes (Topics l ! 1));
             protocolAddress = AddressHex (BytesToAddress (Topics l ! 2))
         in if length (Data l) \<ge> 64 then
              (let offset = Uint64 (SetBytes (word_at (Data l) 0));
                   riskLevel = Int64 (SetBytes (word_at (Data l) 32))
               in case read_string (Data l) offset of
                    Inl e \<Rightarrow> Inl e
                  | Inr n \<Rightarrow>
                      Inr (ProtocolRegistered id' protocolType protocolAddress
                             (case n of None \<Rightarrow> [] | Some s \<Rightarrow> s) riskLevel
                             blockNumber blockTimestamp txHash))
            else Inr (ProtocolRegistered id' protocolType protocolAddress [] 0
                        blockNumber blockTimestamp txHash)))"

definition parseProtocolUpdated :: "log \<Rightarrow> string \<Rightarrow> BigInt \<Rightarrow> BigInt \<Rightarrow> string \<Rightarrow> error + entity" where
  "parseProtocolUpdated l id' blockNumber blockTimestamp txHash =
     (if length (Topics l) < 2 then Inl (Errorf ''insufficient topics for ProtocolUpdated'')
      else
        (let protocolAddress = AddressHex (BytesToAddress (Topics l ! 1))
         in if length (Data l) \<ge> 64 then
              Inr (ProtocolUpdated id' protocolAddress (Some (SetBytes (word_at (Data l) 0)))
                     (Some (SetBytes (word_at (Data l) 32))) blockNumber blockTimestamp txHash)
            else Inr (ProtocolUpdated id' protocolAddress None None blockNumber blockTimestamp txHash)))"

definition parseUnpaused :: "log \<Rightarrow> string \<Rightarrow> BigInt \<Rightarrow> BigInt \<Rightarrow> string \<Rightarrow> error + entity" where
  "parseUnpaused l id' blockNumber blockTimestamp txHash =
     Inr (Unpaused id'
            (if length (Data l) \<ge> 32 then AddressHex (BytesToAddress (word_at (Data l) 0)) else [])
            blockNumber blockTimestamp txHash)"

section \<open>The event catalog and \<open>ParseLog\<close>\<close>

text \<open>The signature hashes that \<open>init\<close> computes from the event declarations.\<close>

definition Keccak256Hash :: "string \<Rightarrow> byte list" where
  "Keccak256Hash s = keccak256 (bytes_of s)"

definition BetPlacedSignature :: "byte list" where
  "BetPlacedSignature = Keccak256Hash ''BetPlaced(uint256,address,bool,uint256,uint256)''"

definition MarketCreatedSignature :: "byte list" where
  "MarketCreatedSignature = Keccak256Hash ''MarketCreated(uint256,string,uint256,address,address)''"

definition MarketResolvedSignature :: "byte list" where
  "MarketResolvedSignature = Keccak256Hash ''MarketResolved(uint256,bool)''"

definition WinningsClaimedSignature :: "byte list" where
  "WinningsClaimedSignature = Keccak256Hash ''WinningsClaimed(uint256,address,uint256)''"

definition AutoDepositExecutedSignature :: "byte list" where
  "AutoDepositExecutedSignature = Keccak256Hash ''AutoDepositExecuted(address,address,uint256,bool)''"

definition AutoWithdrawExecutedSignature :: "byte list" where
  "AutoWithdrawExecutedSignature = Keccak256Hash ''AutoWithdrawExecuted(address,address,uint256,bool)''"

definition OwnershipTransferredSignature :: "byte list" where
  "OwnershipTransferredSignature = Keccak256Hash ''OwnershipTransferred(address,address)''"

definition PausedSignature :: "byte list" where
  "PausedSignature = Keccak256Hash ''Paused(address)''"

definition ProtocolRegisteredSignature :: "byte list" where
  "ProtocolRegisteredSignature = Keccak256Hash ''ProtocolRegistered(uint8,address,string,uint8)''"

definition ProtocolUpdatedSignature :: "byte list" where
  "ProtocolUpdatedSignature = Keccak256Hash ''ProtocolUpdated(address,uint256,uint256)''"

definition UnpausedSignature :: "byte list" where
  "UnpausedSignature = Keccak256Hash ''Unpaused(address)''"

text \<open>
  \<open>strings.EqualFold\<close>. While both bytes are ASCII the comparison is Go's byte loop:
  equal bytes, or an upper-case letter and its lower-case form. At the first byte of
  \<open>0x80\<close> or more Go continues on the two remaining suffixes with Unicode simple
  folding, whose tables belong to package \<open>unicode\<close>; that continuation is the
  parameter \<open>uf\<close>.
\<close>

definition ascii_fold_eq :: "char \<Rightarrow> char \<Rightarrow> bool" where
  "ascii_fold_eq a b =
     (let x = (of_char a :: nat); y = of_char b; sr = min x y; tr = max x y
      in x = y \<or> (65 \<le> sr \<and> sr \<le> 90 \<and> tr = sr + 32))"

fun EqualFold :: "(string \<Rightarrow> string \<Rightarrow> bool) \<Rightarrow> string \<Rightarrow> string \<Rightarrow> bool" where
  "EqualFold uf [] [] = True"
| "EqualFold uf (a # s) (b # t) =
     (if (of_char a :: nat) \<ge> 128 \<or> (of_char b :: nat) \<ge> 128 then uf (a # s) (b # t)
      else ascii_fold_eq a b \<and> EqualFold uf s t)"
| "EqualFold uf _ _ = False"

text \<open>The addresses of the two monitored contracts, global variables set when the networks file is loaded.\<close>

record contracts =
  WhizyPredictionMarketContract :: string
  ProtocolSelectorContract :: string

definition unknown_event :: "byte list \<Rightarrow> string \<Rightarrow> error" where
  "unknown_event eventSig contractAddress =
     Errorf (''unknown event signature: '' @ HashHex eventSig @ '' for contract '' @ contractAddress)"

definition parseProtocolSelector ::
  "byte list \<Rightarrow> log \<Rightarrow> string \<Rightarrow> BigInt \<Rightarrow> BigInt \<Rightarrow> string \<Rightarrow> (error + entity) option" where
  "parseProtocolSelector eventSig l id' blockNumber blockTS txHash =
     (if eventSig = AutoDepositExecutedSignature then Some (parseAutoDepositExecuted l id' blockNumber blockTS txHash)
      else if eventSig = AutoWithdrawExecutedSignature then Some (parseAutoWithdrawExecuted l id' blockNumber blockTS txHash)
      else if eventSig = OwnershipTransferredSignature then Some (parseOwnershipTransferred l id' blockNumber blockTS txHash)
      else if eventSig = PausedSignature then Some (parsePaused l id' blockNumber blockTS txHash)
      else if eventSig = ProtocolRegisteredSignature then Some (parseProtocolRegistered l id' blockNumber blockTS txHash)
      else if eventSig = ProtocolUpdatedSignature then Some (parseProtocolUpdated l id' blockNumber blockTS txHash)
      else if eventSig = UnpausedSignature then Some (parseUnpaused l id' blockNumber blockTS txHash)
      else None)"

definition parseWhizy ::
  "byte list \<Rightarrow> log \<Rightarrow> string \<Rightarrow> BigInt \<Rightarrow> BigInt \<Rightarrow> string \<Rightarrow> (error + entity) option" where
  "parseWhizy eventSig l id' blockNumber blockTS txHash =
     (if eventSig = BetPlacedSignature then Some (parseBetPlaced l id' blockNumber blockTS txHash)
      else if eventSig = MarketCreatedSignature then Some (parseMarketCreated l id' blockNumber blockTS txHash)
      else if eventSig = MarketResolvedSignature then Some (parseMarketResolved l id' blockNumber blockTS txHash)
      else if eventSig = WinningsClaimedSignature then Some (parseWinningsClaimed l id' blockNumber blockTS txHash)
      else None)"

text \<open>
  \<open>ParseLog\<close>. The two \<open>switch\<close> statements are \<open>parseWhizy\<close> and \<open>parseProtocolSelector\<close>,
  \<open>None\<close> when no case matches and control falls through.
\<close>

definition ParseLog ::
  "(string \<Rightarrow> string \<Rightarrow> bool) \<Rightarrow> contracts \<Rightarrow> log \<Rightarrow> string \<Rightarrow> 64 word \<Rightarrow> error + entity" where
  "ParseLog uf cfg l contractAddress blockTimestamp =
     (if length (Topics l) = 0 then Inl (Errorf ''log has no topics'')
      else
        (let eventSig = Topics l ! 0;
             txHash = HashHex (TxHash l);
             blockNumber = Some (unat (LogBlockNumber l));
             blockTS = Some (unat blockTimestamp);
             id' = txHash @ ''-'' @ decimal (Index l);
             whizy = (if EqualFold uf contractAddress (WhizyPredictionMarketContract cfg)
                      then parseWhizy eventSig l id' blockNumber blockTS txHash else None)
         in case whizy of
              Some r \<Rightarrow> r
            | None \<Rightarrow>
                (let selector = (if EqualFold uf contractAddress (ProtocolSelectorContract cfg)
                                 then parseProtocolSelector eventSig l id' blockNumber blockTS txHash
                                 else None)
                 in case selector of
                      Some r \<Rightarrow> r
                    | None \<Rightarrow> Inl (unknown_event eventSig contractAddress))))"


section \<open>The store\<close>

text \<open>
  \<open>config.SyncState\<close>, the cursor row of one contract. \<open>LastBlock\<close> is an \<open>int64\<close>: the
  64 bits are kept as a word, \<open>sint\<close> reads the stored number and the conversion
  \<open>uint64(state.LastBlock)\<close> keeps the bits.
\<close>

record SyncState =
  ContractAddress :: string
  ContractName :: string
  LastBlock :: "64 word"
  LastBlockHash :: string

datatype kind =
    KBetPlaced | KMarketCreated | KMarketResolved | KWinningsClaimed
  | KAutoDepositExecuted | KAutoWithdrawExecuted | KOwnershipTransferred | KPaused
  | KProtocolRegistered | KProtocolUpdated | KUnpaused

fun kind_of :: "entity \<Rightarrow> kind" where
  "kind_of (BetPlaced _ _ _ _ _ _ _ _ _) = KBetPlaced"
| "kind_of (MarketCreated _ _ _ _ _ _ _ _ _) = KMarketCreated"
| "kind_of (MarketResolved _ _ _ _ _ _) = KMarketResolved"
| "kind_of (WinningsClaimed _ _ _ _ _ _ _) = KWinningsClaimed"
| "kind_of (AutoDepositExecuted _ _ _ _ _ _ _ _) = KAutoDepositExecuted"
| "kind_of (AutoWithdrawExecuted _ _ _ _ _ _ _ _) = KAutoWithdrawExecuted"
| "kind_of (OwnershipTransferred _ _ _ _ _ _) = KOwnershipTransferred"
| "kind_of (Paused _ _ _ _ _) = KPaused"
| "kind_of (ProtocolRegistered _ _ _ _ _ _ _ _) = KProtocolRegistered"
| "kind_of (ProtocolUpdated _ _ _ _ _ _ _) = KProtocolUpdated"
| "kind_of (Unpaused _ _ _ _ _) = KUnpaused"

fun kind_name :: "kind \<Rightarrow> string" where
  "kind_name KBetPlaced = ''BetPlaced''"
| "kind_name KMarketCreated = ''MarketCreated''"
| "kind_name KMarketResolved = ''MarketResolved''"
| "kind_name KWinningsClaimed = ''WinningsClaimed''"
| "kind_name KAutoDepositExecuted = ''AutoDepositExecuted''"
| "kind_name KAutoWithdrawExecuted = ''AutoWithdrawExecuted''"
| "kind_name KOwnershipTransferred = ''OwnershipTransferred''"
| "kind_name KPaused = ''Paused''"
| "kind_name KProtocolRegistered = ''ProtocolRegistered''"
| "kind_name KProtocolUpdated = ''ProtocolUpdated''"
| "kind_name KUnpaused = ''Unpaused''"

text \<open>
  The database: the \<open>sync_states\<close> table keyed by its primary key \<open>contract_address\<close>
  (the row holds the other three columns), and one table of entities for each kind,
  keyed by the primary key \<open>id\<close>.
\<close>

record db =
  sync_states :: "string \<rightharpoonup> string \<times> 64 word \<times> string"
  rows :: "kind \<Rightarrow> string \<rightharpoonup> entity"

text \<open>
  What the collaborators answer during one cycle of the loop: whether the run is
  cancelled, whether reading the cursor fails, the latest block number, the logs of a
  range, the header time of a block, the wall clock read when a header is not available,
  the error of the batch insert of a kind, and whether saving the cursor fails. The
  loop asks for the header of a block number at most once in a batch and inserts each
  kind at most once, so a function of the block number or of the kind covers every run.
\<close>

record env =
  cancelled :: bool
  read_error :: "string option"
  latest_block :: "string + 64 word"
  filter_logs :: "string \<Rightarrow> 64 word \<Rightarrow> 64 word \<Rightarrow> string + log list"
  header_time :: "64 word \<Rightarrow> string + 64 word"
  now :: "64 word \<Rightarrow> 64 word"
  insert_error :: "kind \<Rightarrow> string option"
  save_error :: "string option"

text \<open>\<open>db.Where("contract_address = ?", a).First(&state)\<close>: an error when the row is missing.\<close>

definition First :: "env \<Rightarrow> db \<Rightarrow> string \<Rightarrow> error + SyncState" where
  "First e d a =
     (case read_error e of
        Some m \<Rightarrow> Inl (Errorf m)
      | None \<Rightarrow>
          (case sync_states d a of
             None \<Rightarrow> Inl (Errorf ''record not found'')
           | Some (name, lastBlock, hash) \<Rightarrow>
               Inr \<lparr>ContractAddress = a, ContractName = name, LastBlock = lastBlock,
                    LastBlockHash = hash\<rparr>))"

text \<open>\<open>db.Save(&state)\<close>: writes the row of the state's primary key.\<close>

definition Save :: "SyncState \<Rightarrow> db \<Rightarrow> db" where
  "Save st d =
     d\<lparr>sync_states := (sync_states d)(ContractAddress st \<mapsto> (ContractName st, LastBlock st, LastBlockHash st))\<rparr>"

text \<open>
  \<open>db.Clauses(clause.OnConflict{DoNothing: true}).Create(slice)\<close> for the slice of one
  kind: a row whose id is already in the table is skipped.
\<close>

definition Create :: "kind \<Rightarrow> entity list \<Rightarrow> db \<Rightarrow> db" where
  "Create k batch d =
     d\<lparr>rows := (rows d)(k := foldl (\<lambda>t x. if ID x \<in> dom t then t else t(ID x \<mapsto> x)) (rows d k) batch)\<rparr>"

section \<open>The indexing loop\<close>

record contract =
  Name :: string
  Address :: string
  StartBlock :: "64 word"

definition kinds_in_order :: "kind list" where
  "kinds_in_order =
     [KBetPlaced, KMarketCreated, KMarketResolved, KWinningsClaimed, KAutoDepositExecuted,
      KAutoWithdrawExecuted, KOwnershipTransferred, KPaused, KProtocolRegistered,
      KProtocolUpdated, KUnpaused]"

text \<open>
  The eleven \<open>if len(slice) > 0\<close> blocks of \<open>storeEntities\<close>, in their order: the first
  insert that fails ends the function with its error; a failed insert writes nothing.
\<close>

fun insertKinds :: "env \<Rightarrow> entity list \<Rightarrow> kind list \<Rightarrow> db \<Rightarrow> db \<times> error option" where
  "insertKinds e entities [] d = (d, None)"
| "insertKinds e entities (k # ks) d =
     (let batch = filter (\<lambda>x. kind_of x = k) entities
      in if length batch > 0 then
           (case insert_error e k of
              Some m \<Rightarrow> (d, Some (Errorf (''failed to insert '' @ kind_name k @ '': '' @ m)))
            | None \<Rightarrow> insertKinds e entities ks (Create k batch d))
         else insertKinds e entities ks d)"

definition storeEntities :: "env \<Rightarrow> db \<Rightarrow> entity list \<Rightarrow> db \<times> error option" where
  "storeEntities e d entities = insertKinds e entities kinds_in_order d"

text \<open>\<open>RPCClient.GetLogs\<close> wraps the error of the client.\<close>

definition GetLogs :: "env \<Rightarrow> string \<Rightarrow> 64 word \<Rightarrow> 64 word \<Rightarrow> error + log list" where
  "GetLogs e a fromBlock toBlock =
     (case filter_logs e a fromBlock toBlock of
        Inl m \<Rightarrow> Inl (Errorf (''failed to fetch logs: '' @ m))
      | Inr logs \<Rightarrow> Inr logs)"

definition message :: "error \<Rightarrow> string" where
  "message x = (case x of Errorf m \<Rightarrow> m | SlicePanic \<Rightarrow> ''slice bounds out of range'')"

text \<open>
  The loop over the logs in \<open>processBlockRange\<close>, with the timestamp cache of the batch.
  A log whose decoding returns an error is skipped; a panic ends everything.
\<close>

fun decodeLogs ::
  "(string \<Rightarrow> string \<Rightarrow> bool) \<Rightarrow> contracts \<Rightarrow> env \<Rightarrow> string \<Rightarrow> (64 word \<rightharpoonup> 64 word) \<Rightarrow> log list
     \<Rightarrow> error + entity list" where
  "decodeLogs uf cfg e a blockTimestamps [] = Inr []"
| "decodeLogs uf cfg e a blockTimestamps (l # ls) =
     (let blockNum = LogBlockNumber l;
          timestamp = (case blockTimestamps blockNum of
                         Some t \<Rightarrow> t
                       | None \<Rightarrow> (case header_time e blockNum of
                                    Inl m \<Rightarrow> now e blockNum
                                  | Inr t \<Rightarrow> t));
          blockTimestamps' = blockTimestamps(blockNum \<mapsto> timestamp)
      in case ParseLog uf cfg l a timestamp of
           Inl SlicePanic \<Rightarrow> Inl SlicePanic
         | Inl (Errorf m) \<Rightarrow> decodeLogs uf cfg e a blockTimestamps' ls
         | Inr x \<Rightarrow>
             (case decodeLogs uf cfg e a blockTimestamps' ls of
                Inl err \<Rightarrow> Inl err
              | Inr entities \<Rightarrow> Inr (x # entities)))"

definition processBlockRange ::
  "(string \<Rightarrow> string \<Rightarrow> bool) \<Rightarrow> contracts \<Rightarrow> env \<Rightarrow> db \<Rightarrow> contract \<Rightarrow> 64 word \<Rightarrow> 64 word
     \<Rightarrow> db \<times> error option" where
  "processBlockRange uf cfg e d c fromBlock toBlock =
     (case GetLogs e (Address c) fromBlock toBlock of
        Inl err \<Rightarrow> (d, Some (Errorf (''failed to fetch logs: '' @ message err)))
      | Inr logs \<Rightarrow>
          if length logs = 0 then (d, None)
          else
            (case decodeLogs uf cfg e (Address c) Map.empty logs of
               Inl err \<Rightarrow> (d, Some err)
             | Inr entities \<Rightarrow>
                 if length entities = 0 then (d, None) else storeEntities e d entities))"

text \<open>
  One iteration of the \<open>for\<close> loop of \<open>indexContract\<close>, and how it ends: the loop
  returns (\<open>Stopped\<close>), sleeps five seconds after a failure (\<open>Backoff\<close>) or with nothing
  to do (\<open>Idle\<close>), sleeps 100 ms after it has saved the cursor (\<open>Advanced\<close>), or the
  process dies of a panic (\<open>Crashed\<close>).
\<close>

datatype outcome = Stopped | Backoff | Idle | Advanced | Crashed

text \<open>The part of the iteration from the call of \<open>processBlockRange\<close> on.\<close>

definition processAndSave ::
  "(string \<Rightarrow> string \<Rightarrow> bool) \<Rightarrow> contracts \<Rightarrow> env \<Rightarrow> db \<Rightarrow> contract \<Rightarrow> SyncState \<Rightarrow> 64 word \<Rightarrow> 64 word
     \<Rightarrow> db \<times> outcome" where
  "processAndSave uf cfg e d c state fromBlock toBlock =
     (case processBlockRange uf cfg e d c fromBlock toBlock of
        (d', Some SlicePanic) \<Rightarrow> (d', Crashed)
      | (d', Some (Errorf m)) \<Rightarrow> (d', Backoff)
      | (d', None) \<Rightarrow>
          (case save_error e of
             Some m \<Rightarrow> (d', Backoff)
           | None \<Rightarrow> (Save (state\<lparr>LastBlock := toBlock\<rparr>) d', Advanced)))"

text \<open>
  The range of the iteration, in \<open>uint64\<close> arithmetic as the code computes it;
  \<open>None\<close> when the cursor has reached the latest block.
\<close>

definition blockRange :: "64 word \<Rightarrow> 64 word \<Rightarrow> 64 word \<Rightarrow> (64 word \<times> 64 word) option" where
  "blockRange lastBlock blockBatchSize latestBlock =
     (if lastBlock \<ge> latestBlock then None
      else
        (let fromBlock = lastBlock + 1;
             toBlock = fromBlock + blockBatchSize - 1
         in Some (fromBlock, if toBlock > latestBlock then latestBlock else toBlock)))"

definition indexContractStep ::
  "(string \<Rightarrow> string \<Rightarrow> bool) \<Rightarrow> contracts \<Rightarrow> int \<Rightarrow> contract \<Rightarrow> env \<Rightarrow> db \<Rightarrow> db \<times> outcome" where
  "indexContractStep uf cfg BlockBatchSize c e d =
     (if cancelled e then (d, Stopped)
      else
        (case First e d (Address c) of
           Inl err \<Rightarrow> (d, Backoff)
         | Inr state \<Rightarrow>
             (case latest_block e of
                Inl m \<Rightarrow> (d, Backoff)
              | Inr latestBlock \<Rightarrow>
                  (case blockRange (LastBlock state) (of_int BlockBatchSize) latestBlock of
                     None \<Rightarrow> (d, Idle)
                   | Some (fromBlock, toBlock) \<Rightarrow>
                       processAndSave uf cfg e d c state fromBlock toBlock))))"

text \<open>The loop run against the answers of a sequence of iterations, until it stops.\<close>

fun indexContract ::
  "(string \<Rightarrow> string \<Rightarrow> bool) \<Rightarrow> contracts \<Rightarrow> int \<Rightarrow> contract \<Rightarrow> env list \<Rightarrow> db \<Rightarrow> db" where
  "indexContract uf cfg BlockBatchSize c [] d = d"
| "indexContract uf cfg BlockBatchSize c (e # es) d =
     (case indexContractStep uf cfg BlockBatchSize c e d of
        (d', Stopped) \<Rightarrow> d'
      | (d', Crashed) \<Rightarrow> d'
      | (d', _) \<Rightarrow> indexContract uf cfg BlockBatchSize c es d')"

text \<open>The stored cursor of a contract.\<close>

definition cursor :: "db \<Rightarrow> string \<Rightarrow> 64 word option" where
  "cursor d a = map_option (\<lambda>(name, lastBlock, hash). lastBlock) (sync_states d a)"

section \<open>Notions used in the statements\<close>

text \<open>The signatures known for each of the two contracts, in the order of the \<open>switch\<close> cases.\<close>

definition known_whizy :: "byte list list" where
  "known_whizy = [BetPlacedSignature, MarketCreatedSignature, MarketResolvedSignature, WinningsClaimedSignature]"

definition known_selector :: "byte list list" where
  "known_selector = [AutoDepositExecutedSignature, AutoWithdrawExecutedSignature,
     OwnershipTransferredSignature, PausedSignature, ProtocolRegisteredSignature,
     ProtocolUpdatedSignature, UnpausedSignature]"

text \<open>
  The timestamp that \<open>processBlockRange\<close> gives to the logs of block \<open>n\<close>: the header time,
  or the wall clock when the header cannot be fetched.
\<close>

definition resolve :: "env \<Rightarrow> 64 word \<Rightarrow> 64 word" where
  "resolve e n = (case header_time e n of Inl m \<Rightarrow> now e n | Inr t \<Rightarrow> t)"

section \<open>Example inputs\<close>

definition never :: "string \<Rightarrow> string \<Rightarrow> bool" where
  "never s t = False"

definition two_contracts :: contracts where
  "two_contracts = \<lparr>WhizyPredictionMarketContract = ''0xAbC1'', ProtocolSelectorContract = ''0xdEf2''\<rparr>"

definition topic_of_nat :: "nat \<Rightarrow> byte list" where
  "topic_of_nat n = replicate 31 0 @ [of_nat n]"

definition bet_log_short :: log where
  "bet_log_short = \<lparr>Topics = [BetPlacedSignature, topic_of_nat 7], Data = [],
                     LogBlockNumber = 40, TxHash = [0x01, 0xff], Index = 12\<rparr>"

definition paused_log :: log where
  "paused_log = \<lparr>Topics = [PausedSignature], Data = [1, 2, 3],
                  LogBlockNumber = 41, TxHash = [0x0a, 0xbc], Index = 3\<rparr>"

definition bet_log_min :: log where
  "bet_log_min = \<lparr>Topics = [BetPlacedSignature, topic_of_nat 7, topic_of_nat 9], Data = [],
                   LogBlockNumber = 40, TxHash = [0x01, 0xff], Index = 12\<rparr>"

definition quiet_env :: env where
  "quiet_env = \<lparr>cancelled = False, read_error = None, latest_block = Inr 100,
                 filter_logs = (\<lambda>a f t. Inr []), header_time = (\<lambda>n. Inr 0), now = (\<lambda>n. 0),
                 insert_error = (\<lambda>k. None), save_error = None\<rparr>"



definition db10 :: db where
  "db10 = \<lparr>sync_states = [''0xAbC1'' \<mapsto> (''WhizyPredictionMarket'', 10, [])],
            rows = (\<lambda>k. Map.empty)\<rparr>"

definition overflow_offset :: "byte list" where
  "overflow_offset = replicate 24 0 @ [0xff, 0xff, 0xff, 0xff, 0xff, 0xff, 0xff, 0xe0]"

definition market_created_overflow :: log where
  "market_created_overflow =
     \<lparr>Topics = [MarketCreatedSignature, topic_of_nat 1], Data = overflow_offset @ replicate 96 0,
      LogBlockNumber = 40, TxHash = [0x01, 0xff], Index = 0\<rparr>"

definition rebalancer :: contract where
  "rebalancer = \<lparr>Name = ''RebalancerDelegation'', Address = ''0x9999'', StartBlock = 10\<rparr>"

definition one_log_env :: env where
  "one_log_env = quiet_env\<lparr>filter_logs := (\<lambda>a f t. Inr [bet_log_min])\<rparr>"

section \<open>Properties\<close>

subsection \<open>The entity identifier\<close>

lemma parse_ids:
  "parseBetPlaced l i bn ts tx = Inr x \<Longrightarrow> ID x = i \<and> TransactionHash x = tx"
  "parseMarketCreated l i bn ts tx = Inr x \<Longrightarrow> ID x = i \<and> TransactionHash x = tx"
  "parseMarketResolved l i bn ts tx = Inr x \<Longrightarrow> ID x = i \<and> TransactionHash x = tx"
  "parseWinningsClaimed l i bn ts tx = Inr x \<Longrightarrow> ID x = i \<and> TransactionHash x = tx"
  "parseAutoDepositExecuted l i bn ts tx = Inr x \<Longrightarrow> ID x = i \<and> TransactionHash x = tx"
  "parseAutoWithdrawExecuted l i bn ts tx = Inr x \<Longrightarrow> ID x = i \<and> TransactionHash x = tx"
  "parseOwnershipTransferred l i bn ts tx = Inr x \<Longrightarrow> ID x = i \<and> TransactionHash x = tx"
  "parsePaused l i bn ts tx = Inr x \<Longrightarrow> ID x = i \<and> TransactionHash x = tx"
  "parseProtocolRegistered l i bn ts tx = Inr x \<Longrightarrow> ID x = i \<and> TransactionHash x = tx"
  "parseProtocolUpdated l i bn ts tx = Inr x \<Longrightarrow> ID x = i \<and> TransactionHash x = tx"
  "parseUnpaused l i bn ts tx = Inr x \<Longrightarrow> ID x = i \<and> TransactionHash x = tx"
  by (auto simp: parseBetPlaced_def parseMarketCreated_def parseMarketResolved_def
      parseWinningsClaimed_def parseAutoDepositExecuted_def parseAutoWithdrawExecuted_def
      parseOwnershipTransferred_def parsePaused_def parseProtocolRegistered_def
      parseProtocolUpdated_def parseUnpaused_def Let_def split: if_splits sum.splits)

lemma parseWhizy_id:
  "parseWhizy s l i bn ts tx = Some (Inr x) \<Longrightarrow> ID x = i \<and> TransactionHash x = tx"
  by (auto simp: parseWhizy_def split: if_splits dest: parse_ids)

lemma parseProtocolSelector_id:
  "parseProtocolSelector s l i bn ts tx = Some (Inr x) \<Longrightarrow> ID x = i \<and> TransactionHash x = tx"
  by (auto simp: parseProtocolSelector_def split: if_splits dest: parse_ids)

lemma SetBytes_zeros: "SetBytes (replicate n 0 @ bs) = SetBytes bs"
  by (induction n) (simp_all add: SetBytes_def)

lemma SetBytes_topic_of_nat: "SetBytes (topic_of_nat n) = unat (of_nat n :: byte)"
  by (simp add: topic_of_nat_def SetBytes_zeros) (simp add: SetBytes_def)

lemma decimal_12: "decimal 12 = ''12''"
  by (simp add: decimal.simps [of 12] decimal.simps [of "Suc 0"] hexdigit_def)

lemma hashhex_01ff: "HashHex [0x01, 0xff] = ''0x01ff''"
  by (simp add: HashHex_def hex_of_bytes_def hexdigit_def)

text \<open>
  Claim C8. Whenever \<open>ParseLog\<close> decodes a log, whatever the event kind, the entity's
  \<open>ID\<close> is the transaction hash string, a hyphen and the decimal log index; the entity's
  \<open>TransactionHash\<close> is that same hash string.
\<close>

theorem ParseLog_id:
  assumes "ParseLog uf cfg l a t = Inr x"
  shows "ID x = HashHex (TxHash l) @ ''-'' @ decimal (Index l) \<and> TransactionHash x = HashHex (TxHash l)"
  using assms
  by (auto simp: ParseLog_def Let_def split: if_splits option.splits
      dest!: parseWhizy_id parseProtocolSelector_id)

theorem ParseLog_id_witness:
  "ParseLog never two_contracts bet_log_min ''0xabc1'' 5 =
     Inr (BetPlaced ''0x01ff-12'' (Some 7) (AddressHex (BytesToAddress (topic_of_nat 9))) False None None
            (Some 40) (Some 5) ''0x01ff'') \<and>
   ID (BetPlaced ''0x01ff-12'' (Some 7) (AddressHex (BytesToAddress (topic_of_nat 9))) False None None
            (Some 40) (Some 5) ''0x01ff'') = HashHex (TxHash bet_log_min) @ ''-'' @ decimal (Index bet_log_min)"
proof -
  have h: "ParseLog never two_contracts bet_log_min ''0xabc1'' 5 =
     Inr (BetPlaced ''0x01ff-12'' (Some 7) (AddressHex (BytesToAddress (topic_of_nat 9))) False None None
            (Some 40) (Some 5) ''0x01ff'')"
    by (simp add: ParseLog_def parseWhizy_def parseBetPlaced_def bet_log_min_def two_contracts_def
        ascii_fold_eq_def decimal_12 hashhex_01ff SetBytes_topic_of_nat)
  from ParseLog_id [OF h] h show ?thesis by simp
qed

subsection \<open>Insufficient topics\<close>

text \<open>
  Claim C5. A log with fewer than three topics is rejected by the BetPlaced decoder with
  the error \<open>insufficient topics for BetPlaced\<close>, and no entity is produced; the same
  is the result of \<open>ParseLog\<close> when it routes such a log to that decoder.
\<close>

theorem betplaced_insufficient_topics:
  assumes "length (Topics l) < 3"
  shows "parseBetPlaced l i bn ts tx = Inl (Errorf ''insufficient topics for BetPlaced'') \<and>
         (Topics l \<noteq> [] \<and> Topics l ! 0 = BetPlacedSignature \<and>
          EqualFold uf a (WhizyPredictionMarketContract cfg) \<longrightarrow>
          ParseLog uf cfg l a t = Inl (Errorf ''insufficient topics for BetPlaced''))"
  using assms by (simp add: parseBetPlaced_def ParseLog_def parseWhizy_def)

theorem betplaced_insufficient_topics_witness:
  "length (Topics bet_log_short) < 3 \<and>
   parseBetPlaced bet_log_short ''x'' None None ''y'' = Inl (Errorf ''insufficient topics for BetPlaced'') \<and>
   ParseLog never two_contracts bet_log_short ''0xabc1'' 5 = Inl (Errorf ''insufficient topics for BetPlaced'')"
proof -
  have h: "length (Topics bet_log_short) < 3" by (simp add: bet_log_short_def)
  have t: "Topics bet_log_short \<noteq> [] \<and> Topics bet_log_short ! 0 = BetPlacedSignature \<and>
           EqualFold never ''0xabc1'' (WhizyPredictionMarketContract two_contracts)"
    by (simp add: bet_log_short_def two_contracts_def ascii_fold_eq_def)
  from betplaced_insufficient_topics [OF h, of "''x''" None None "''y''" never "''0xabc1''" two_contracts 5] h t
  show ?thesis by simp
qed

subsection \<open>The decoders without a topic check\<close>

text \<open>
  Claim C10. \<open>parsePaused\<close> and \<open>parseUnpaused\<close> return an entity for every log, with
  \<open>Account\<close> empty when the data is shorter than 32 bytes; each of the other nine
  decoders returns an error on a log with fewer than two topics.
\<close>

theorem paused_unpaused_total:
  "(\<exists>x. parsePaused l i bn ts tx = Inr x \<and> (length (Data l) < 32 \<longrightarrow> Account x = [])) \<and>
   (\<exists>x. parseUnpaused l i bn ts tx = Inr x \<and> (length (Data l) < 32 \<longrightarrow> Account x = [])) \<and>
   (length (Topics l) < 2 \<longrightarrow>
      isl (parseBetPlaced l i bn ts tx) \<and> isl (parseMarketCreated l i bn ts tx) \<and>
      isl (parseMarketResolved l i bn ts tx) \<and> isl (parseWinningsClaimed l i bn ts tx) \<and>
      isl (parseAutoDepositExecuted l i bn ts tx) \<and> isl (parseAutoWithdrawExecuted l i bn ts tx) \<and>
      isl (parseOwnershipTransferred l i bn ts tx) \<and> isl (parseProtocolRegistered l i bn ts tx) \<and>
      isl (parseProtocolUpdated l i bn ts tx))"
  by (simp add: parseBetPlaced_def parseMarketCreated_def parseMarketResolved_def
      parseWinningsClaimed_def parseAutoDepositExecuted_def parseAutoWithdrawExecuted_def
      parseOwnershipTransferred_def parsePaused_def parseProtocolRegistered_def
      parseProtocolUpdated_def parseUnpaused_def)

theorem paused_unpaused_total_witness:
  "length (Data paused_log) < 32 \<and> length (Topics paused_log) < 2 \<and>
   parsePaused paused_log ''i'' None None ''t'' = Inr (Paused ''i'' [] None None ''t'') \<and>
   parseUnpaused paused_log ''i'' None None ''t'' = Inr (Unpaused ''i'' [] None None ''t'') \<and>
   isl (parseBetPlaced paused_log ''i'' None None ''t'')"
  using paused_unpaused_total [of paused_log "''i''" None None "''t''"]
  by (simp add: paused_log_def parsePaused_def parseUnpaused_def)

subsection \<open>The range of a cycle\<close>



subsection \<open>An offset that wraps\<close>

lemma overflow_offset_value: "Uint64 (SetBytes overflow_offset) = 0xFFFFFFFFFFFFFFE0"
  by (simp add: overflow_offset_def SetBytes_zeros) (simp add: SetBytes_def Uint64_def)

lemma read_string_overflow: "read_string (overflow_offset @ replicate 96 0) 0xFFFFFFFFFFFFFFE0 = Inl SlicePanic"
  by (simp add: read_string_def len64_def overflow_offset_def slice_def)

text \<open>
  Claim C4. The claim holds that a MarketCreated log whose string offset points past the
  data decodes with an empty question. On the log \<open>market_created_overflow\<close>, whose
  offset word is \<open>2^64 - 32\<close>, the sum \<open>offset + 32\<close> wraps to 0, the guard passes and the
  slice expression \<open>log.Data[offset : offset+32]\<close> panics: the decoder returns nothing.
\<close>

theorem parseMarketCreated_overflow_panics:
  "parseMarketCreated market_created_overflow i bn ts tx = Inl SlicePanic"
proof -
  have w: "word_at (overflow_offset @ replicate 96 0) 0 = overflow_offset"
    by (simp add: word_at_def overflow_offset_def)
  show ?thesis
    by (simp add: parseMarketCreated_def market_created_overflow_def Let_def w
        overflow_offset_value read_string_overflow)
       (simp add: overflow_offset_def)
qed

subsection \<open>Unknown events and skipped logs\<close>

lemma parseWhizy_unknown: "s \<notin> set known_whizy \<Longrightarrow> parseWhizy s l i bn ts tx = None"
  by (simp add: parseWhizy_def known_whizy_def)

lemma parseProtocolSelector_unknown: "s \<notin> set known_selector \<Longrightarrow> parseProtocolSelector s l i bn ts tx = None"
  by (simp add: parseProtocolSelector_def known_selector_def)

lemma ParseLog_unknown:
  assumes "Topics l \<noteq> []"
    and "\<not> EqualFold uf a (WhizyPredictionMarketContract cfg) \<or> Topics l ! 0 \<notin> set known_whizy"
    and "\<not> EqualFold uf a (ProtocolSelectorContract cfg) \<or> Topics l ! 0 \<notin> set known_selector"
  shows "ParseLog uf cfg l a t = Inl (unknown_event (Topics l ! 0) a)"
  using assms by (auto simp: ParseLog_def Let_def parseWhizy_unknown parseProtocolSelector_unknown)

lemma decodeLogs_cache:
  assumes "\<forall>n t. c n = Some t \<longrightarrow> t = resolve e n"
  shows "decodeLogs uf cfg e a c ls = decodeLogs uf cfg e a Map.empty ls"
  using assms
proof (induction ls arbitrary: c)
  case Nil
  then show ?case by simp
next
  case (Cons l ls)
  let ?n = "LogBlockNumber l"
  have ts: "(case c ?n of Some t \<Rightarrow> t | None \<Rightarrow> (case header_time e ?n of Inl m \<Rightarrow> now e ?n | Inr t \<Rightarrow> t)) = resolve e ?n"
    using Cons.prems by (auto simp: resolve_def split: option.splits)
  have ts0: "(case Map.empty ?n of Some t \<Rightarrow> t | None \<Rightarrow> (case header_time e ?n of Inl m \<Rightarrow> now e ?n | Inr t \<Rightarrow> t)) = resolve e ?n"
    by (simp add: resolve_def)
  have c1: "\<forall>n t. (c(?n \<mapsto> resolve e ?n)) n = Some t \<longrightarrow> t = resolve e n"
    using Cons.prems by auto
  have c2: "\<forall>n t. (Map.empty(?n \<mapsto> resolve e ?n)) n = Some t \<longrightarrow> t = resolve e n"
    by auto
  have eq: "decodeLogs uf cfg e a (c(?n \<mapsto> resolve e ?n)) ls = decodeLogs uf cfg e a (Map.empty(?n \<mapsto> resolve e ?n)) ls"
    by (rule trans [OF Cons.IH [OF c1] Cons.IH [OF c2, symmetric]])
  show ?case
    by (simp only: decodeLogs.simps Let_def ts ts0 eq)
qed

lemma decodeLogs_Cons:
  "decodeLogs uf cfg e a Map.empty (l # ls) =
     (case ParseLog uf cfg l a (resolve e (LogBlockNumber l)) of
        Inl SlicePanic \<Rightarrow> Inl SlicePanic
      | Inl (Errorf m) \<Rightarrow> decodeLogs uf cfg e a Map.empty ls
      | Inr x \<Rightarrow> (case decodeLogs uf cfg e a Map.empty ls of Inl err \<Rightarrow> Inl err | Inr es \<Rightarrow> Inr (x # es)))"
proof -
  let ?n = "LogBlockNumber l"
  have ts0: "(case Map.empty ?n of Some t \<Rightarrow> t | None \<Rightarrow> (case header_time e ?n of Inl m \<Rightarrow> now e ?n | Inr t \<Rightarrow> t)) = resolve e ?n"
    by (simp add: resolve_def)
  have c2: "\<forall>n t. (Map.empty(?n \<mapsto> resolve e ?n)) n = Some t \<longrightarrow> t = resolve e n"
    by auto
  show ?thesis
    by (simp only: decodeLogs.simps Let_def ts0 decodeLogs_cache [OF c2])
qed

lemma decodeLogs_skip:
  assumes "ParseLog uf cfg bad a (resolve e (LogBlockNumber bad)) = Inl (Errorf m)"
  shows "decodeLogs uf cfg e a Map.empty (pre @ bad # post) = decodeLogs uf cfg e a Map.empty (pre @ post)"
proof (induction pre)
  case Nil
  then show ?case using assms by (simp only: append_Nil decodeLogs_Cons) simp
next
  case (Cons p pre)
  then show ?case by (simp only: append_Cons decodeLogs_Cons)
qed

lemma decodeLogs_env:
  assumes "header_time e' = header_time e" and "now e' = now e"
  shows "decodeLogs uf cfg e' a c ls = decodeLogs uf cfg e a c ls"
proof (induction ls arbitrary: c)
  case Nil
  show ?case by simp
next
  case (Cons l ls)
  show ?case by (simp only: decodeLogs.simps assms Cons.IH)
qed

lemma insertKinds_env:
  assumes "insert_error e' = insert_error e"
  shows "insertKinds e' es ks d = insertKinds e es ks d"
proof (induction ks arbitrary: d)
  case Nil
  show ?case by simp
next
  case (Cons k ks)
  show ?case by (simp only: insertKinds.simps assms Cons.IH)
qed

lemma processBlockRange_logs:
  assumes "filter_logs e (Address c) f t = Inr logs"
  shows "processBlockRange uf cfg e d c f t =
           (if length logs = 0 then (d, None)
            else (case decodeLogs uf cfg e (Address c) Map.empty logs of
                    Inl err \<Rightarrow> (d, Some err)
                  | Inr entities \<Rightarrow> if length entities = 0 then (d, None) else storeEntities e d entities))"
  using assms by (simp add: processBlockRange_def GetLogs_def)

text \<open>
  Claim C7. A log with a topic whose contract address matches neither monitored contract,
  or whose first topic is none of the signatures known for its contract, makes \<open>ParseLog\<close>
  return the unknown event error and no entity. In a batch, a log whose decoding returns
  an error is skipped: the entities decoded from the batch, and the result of
  \<open>processBlockRange\<close>, are those of the batch without that log.
\<close>

theorem unknown_event_skipped:
  "(Topics l \<noteq> [] \<and>
    (\<not> EqualFold uf a (WhizyPredictionMarketContract cfg) \<or> Topics l ! 0 \<notin> set known_whizy) \<and>
    (\<not> EqualFold uf a (ProtocolSelectorContract cfg) \<or> Topics l ! 0 \<notin> set known_selector)
      \<longrightarrow> ParseLog uf cfg l a ts = Inl (unknown_event (Topics l ! 0) a)) \<and>
   (filter_logs e (Address c) f t = Inr (pre @ bad # post) \<and>
    ParseLog uf cfg bad (Address c) (resolve e (LogBlockNumber bad)) = Inl (Errorf m)
      \<longrightarrow> decodeLogs uf cfg e (Address c) Map.empty (pre @ bad # post) =
            decodeLogs uf cfg e (Address c) Map.empty (pre @ post) \<and>
          processBlockRange uf cfg e d c f t =
            processBlockRange uf cfg (e\<lparr>filter_logs := (\<lambda>a f t. Inr (pre @ post))\<rparr>) d c f t)"
proof -
  have p1: "ParseLog uf cfg l a ts = Inl (unknown_event (Topics l ! 0) a)"
    if "Topics l \<noteq> []"
      and "\<not> EqualFold uf a (WhizyPredictionMarketContract cfg) \<or> Topics l ! 0 \<notin> set known_whizy"
      and "\<not> EqualFold uf a (ProtocolSelectorContract cfg) \<or> Topics l ! 0 \<notin> set known_selector"
    using that by (rule ParseLog_unknown)
  have p2: "decodeLogs uf cfg e (Address c) Map.empty (pre @ bad # post) =
            decodeLogs uf cfg e (Address c) Map.empty (pre @ post)"
    if "ParseLog uf cfg bad (Address c) (resolve e (LogBlockNumber bad)) = Inl (Errorf m)"
    using that by (rule decodeLogs_skip)
  have p3: "processBlockRange uf cfg e d c f t =
            processBlockRange uf cfg (e\<lparr>filter_logs := (\<lambda>a f t. Inr (pre @ post))\<rparr>) d c f t"
    if fl: "filter_logs e (Address c) f t = Inr (pre @ bad # post)"
      and bad: "ParseLog uf cfg bad (Address c) (resolve e (LogBlockNumber bad)) = Inl (Errorf m)"
  proof -
    let ?e' = "e\<lparr>filter_logs := (\<lambda>a f t. Inr (pre @ post))\<rparr>"
    have d': "decodeLogs uf cfg ?e' (Address c) Map.empty (pre @ post) =
              decodeLogs uf cfg e (Address c) Map.empty (pre @ bad # post)"
      using decodeLogs_env [of ?e' e uf cfg "Address c" Map.empty "pre @ post"] p2 [OF bad] by simp
    have s': "storeEntities ?e' d es = storeEntities e d es" for es
      using insertKinds_env [of ?e' e es kinds_in_order d] by (simp add: storeEntities_def)
    have l': "filter_logs ?e' (Address c) f t = Inr (pre @ post)" by simp
    show ?thesis
    proof (cases "pre @ post = []")
      case True
      then have "decodeLogs uf cfg e (Address c) Map.empty (pre @ post) = Inr []" by simp
      with p2 [OF bad] have e0: "decodeLogs uf cfg e (Address c) Map.empty (pre @ bad # post) = Inr []"
        by (simp only:)
      have l0: "filter_logs ?e' (Address c) f t = Inr []" using True by simp
      have lhs: "processBlockRange uf cfg e d c f t = (d, None)"
        by (simp add: processBlockRange_logs [OF fl] e0)
      have rhs: "processBlockRange uf cfg ?e' d c f t = (d, None)"
        by (simp add: processBlockRange_logs [OF l0])
      show ?thesis by (simp only: lhs rhs)
    next
      case False
      have lhs: "processBlockRange uf cfg e d c f t =
          (case decodeLogs uf cfg e (Address c) Map.empty (pre @ bad # post) of
             Inl err \<Rightarrow> (d, Some err)
           | Inr entities \<Rightarrow> if length entities = 0 then (d, None) else storeEntities e d entities)"
        by (simp add: processBlockRange_logs [OF fl])
      have rhs: "processBlockRange uf cfg ?e' d c f t =
          (case decodeLogs uf cfg ?e' (Address c) Map.empty (pre @ post) of
             Inl err \<Rightarrow> (d, Some err)
           | Inr entities \<Rightarrow> if length entities = 0 then (d, None) else storeEntities ?e' d entities)"
        using False by (simp add: processBlockRange_logs [OF l'])
      show ?thesis
        by (simp only: lhs rhs d' s')
    qed
  qed
  from p1 p2 p3 show ?thesis by blast
qed

theorem unknown_event_skipped_witness:
  "Topics bet_log_min \<noteq> [] \<and>
   \<not> EqualFold never ''0x9999'' (WhizyPredictionMarketContract two_contracts) \<and>
   \<not> EqualFold never ''0x9999'' (ProtocolSelectorContract two_contracts) \<and>
   filter_logs one_log_env (Address rebalancer) 11 30 = Inr ([] @ bet_log_min # []) \<and>
   ParseLog never two_contracts bet_log_min ''0x9999'' 0 = Inl (unknown_event BetPlacedSignature ''0x9999'') \<and>
   processBlockRange never two_contracts one_log_env db10 rebalancer 11 30 = (db10, None)"
proof -
  have a: "Topics bet_log_min \<noteq> []" by (simp add: bet_log_min_def)
  have b: "\<not> EqualFold never ''0x9999'' (WhizyPredictionMarketContract two_contracts)"
    by (simp add: two_contracts_def ascii_fold_eq_def)
  have c: "\<not> EqualFold never ''0x9999'' (ProtocolSelectorContract two_contracts)"
    by (simp add: two_contracts_def ascii_fold_eq_def)
  have f: "filter_logs one_log_env (Address rebalancer) 11 30 = Inr ([] @ bet_log_min # [])"
    by (simp add: one_log_env_def)
  have r: "resolve one_log_env (LogBlockNumber bet_log_min) = 0"
    by (simp add: resolve_def one_log_env_def quiet_env_def)
  have t0: "Topics bet_log_min ! 0 = BetPlacedSignature" by (simp add: bet_log_min_def)
  have ad: "Address rebalancer = ''0x9999''" by (simp add: rebalancer_def)
  have p: "ParseLog never two_contracts bet_log_min (Address rebalancer)
             (resolve one_log_env (LogBlockNumber bet_log_min)) =
           Inl (Errorf (''unknown event signature: '' @ HashHex BetPlacedSignature @ '' for contract '' @ ''0x9999''))"
    using unknown_event_skipped [of bet_log_min never "''0x9999''" two_contracts 0] a b c
    by (simp add: r ad t0 unknown_event_def)
  have q: "processBlockRange never two_contracts (one_log_env\<lparr>filter_logs := (\<lambda>a f t. Inr ([] @ []))\<rparr>)
             db10 rebalancer 11 30 = (db10, None)"
    by (simp add: processBlockRange_def GetLogs_def)
  from unknown_event_skipped [of bet_log_min never "''0x9999''" two_contracts 0 one_log_env rebalancer 11 30 "[]" bet_log_min "[]" _ db10]
    a b c f p q
  show ?thesis by (simp add: t0)
qed

end
